theory Spec2Isabelle
  imports Complex_Main
begin

section \<open>General channels of the Zigbee Home Automation integration\<close>

text \<open>
  A shallow embedding of \<^verbatim>\<open>homeassistant/components/zha/core/channels/general.py\<close>.
  Every channel (adapter) is a record; a handler takes the channel and returns the
  channel after the call, or the exception it raised. Everything a handler does to the
  outside is a field of the record: the signals it sent, the debug records it logged,
  the requests it made to the cluster, and the calls the scheduler holds for it.
  A Python attribute with a leading underscore, \<^verbatim>\<open>self._state\<close>, is the
  field \<open>priv_state\<close>.
\<close>

subsection \<open>Python values and exceptions\<close>

datatype error = IndexError | TypeError | TimeoutError | ZigbeeException | OtherError

datatype pyval =
    PNone
  | PBool bool
  | PInt int
  | PFloat rat
  | PStr string
  | PExc error
  | PList "pyval list"

text \<open>\<^verbatim>\<open>bool(value)\<close>: the truth value of a Python object.\<close>

fun py_bool :: "pyval \<Rightarrow> bool" where
  "py_bool PNone = False"
| "py_bool (PBool b) = b"
| "py_bool (PInt i) = (i \<noteq> 0)"
| "py_bool (PFloat q) = (q \<noteq> 0)"
| "py_bool (PStr s) = (s \<noteq> [])"
| "py_bool (PExc e) = True"
| "py_bool (PList xs) = (xs \<noteq> [])"

text \<open>
  \<^verbatim>\<open>args[i]\<close> for a literal index \<open>i\<close>: IndexError past the end of the list.
  \<^verbatim>\<open>args[i]\<close> where \<^verbatim>\<open>args\<close> may be \<^verbatim>\<open>None\<close>: TypeError on None.
\<close>

definition subscript :: "'a list \<Rightarrow> nat \<Rightarrow> error + 'a" where
  "subscript xs i = (if i < length xs then Inr (xs ! i) else Inl IndexError)"

definition subscript_opt :: "'a list option \<Rightarrow> nat \<Rightarrow> error + 'a" where
  "subscript_opt xs i = (case xs of None \<Rightarrow> Inl TypeError | Some ys \<Rightarrow> subscript ys i)"

text \<open>\<^verbatim>\<open>str(n)\<close> for an integer: its decimal digits, with a sign when negative.\<close>

fun str_nat :: "nat \<Rightarrow> string" where
  "str_nat n =
     (if n < 10 then [char_of (48 + n)]
      else str_nat (n div 10) @ [char_of (48 + n mod 10)])"

declare str_nat.simps [simp del]

definition str_int :: "int \<Rightarrow> string" where
  "str_int i = (if i < 0 then CHR ''-'' # str_nat (nat (- i)) else str_nat (nat i))"

text \<open>
  What a handler returns: the channel after the call, or the exception it raised together
  with the channel as the exception leaves it (what the handler had already done stays
  done).
\<close>

type_synonym 'c result = "(error \<times> 'c) + 'c"

definition raised :: "'c result \<Rightarrow> error option" where
  "raised r = (case r of Inl (e, c) \<Rightarrow> Some e | Inr c \<Rightarrow> None)"

definition channel_of :: "'c result \<Rightarrow> 'c" where
  "channel_of r = (case r of Inl (e, c) \<Rightarrow> c | Inr c \<Rightarrow> c)"

subsection \<open>The collaborators of a channel\<close>

text \<open>
  The names imported from \<^verbatim>\<open>..const\<close>. Their values are declared outside this
  file, so they are parameters here. \<^verbatim>\<open>SIGNAL_UPDATE_DEVICE\<close> is a template that
  is only ever used through \<^verbatim>\<open>SIGNAL_UPDATE_DEVICE.format(signal_id)\<close>; the field
  \<open>SIGNAL_UPDATE_DEVICE_format\<close> is that instantiation as a function of the id.
\<close>

record zha_const =
  SIGNAL_ATTR_UPDATED :: string
  SIGNAL_MOVE_LEVEL :: string
  SIGNAL_SET_LEVEL :: string
  SIGNAL_STATE_ATTR :: string
  SIGNAL_UPDATE_DEVICE_format :: "string \<Rightarrow> string"

text \<open>The reporting cadences of \<^verbatim>\<open>..const\<close>; this file only names them.\<close>

datatype report_cadence =
    REPORT_CONFIG_ASAP
  | REPORT_CONFIG_BATTERY_SAVE
  | REPORT_CONFIG_DEFAULT
  | REPORT_CONFIG_IMMEDIATE

text \<open>
  One entry of a \<^verbatim>\<open>REPORT_CONFIG\<close>: \<^verbatim>\<open>{"attr": name-or-id, "config": cadence}\<close>.
  \<open>Inl\<close> is an attribute name, \<open>Inr\<close> an attribute id.
\<close>

record report_entry =
  attr :: "string + int"
  config :: report_cadence

text \<open>
  The zigpy cluster a channel is attached to. The command and attribute tables map an id
  to a tuple whose element 0 is the name; only that element is ever read here, so the
  tables map an id to the name. \<open>attridx\<close> is the reverse table of the attributes.
  \<open>write_attributes\<close>, \<open>read_attribute\<close>, \<open>bind\<close> and \<open>configure_reporting\<close> are
  what the device answers to a write, a live read, a binding and a reporting request: a
  result, or the exception the request raises.
\<close>

record cluster =
  is_client :: bool
  server_commands :: "int \<rightharpoonup> string"
  attributes :: "int \<rightharpoonup> string"
  attridx :: "string \<rightharpoonup> int"
  write_attributes :: "(string \<times> int) list \<Rightarrow> error + pyval"
  read_attribute :: "int \<Rightarrow> error + pyval"
  bind :: "error + pyval"
  configure_reporting :: "report_entry list \<Rightarrow> error + pyval"

record channel_pool =
  pool_unique_id :: string
  is_mains_powered :: bool

type_synonym signal = "string \<times> pyval list"

type_synonym log_record = "string \<times> pyval list"

datatype channel_status = UNBOUND | CONFIGURED | READY

text \<open>
  The state of a \<^verbatim>\<open>ZigbeeChannel\<close> that this file reads or changes.
  \<open>bus\<close> holds the signals sent with \<^verbatim>\<open>async_send_signal\<close>, oldest first;
  \<open>debug_log\<close> the records of \<^verbatim>\<open>self.debug\<close>, as the format string and its
  arguments; \<open>written\<close> the write requests sent to the cluster; \<open>requested\<close> the calls
  of \<^verbatim>\<open>get_attribute_value\<close>, as the attribute and the \<^verbatim>\<open>from_cache\<close> flag.
\<close>

record zigbee_channel =
  cluster :: cluster
  priv_ch_pool :: channel_pool
  unique_id :: string
  priv_report_config :: "report_entry list"
  status :: channel_status
  attr_cache :: "int \<rightharpoonup> pyval"
  bus :: "signal list"
  debug_log :: "log_record list"
  written :: "(string \<times> int) list list"
  requested :: "(int \<times> bool) list"

subsection \<open>The base class\<close>

text \<open>
  Modelled from the spec: \<^verbatim>\<open>ZigbeeChannel.async_send_signal\<close> and
  \<^verbatim>\<open>ZigbeeChannel.debug\<close> of \<^verbatim>\<open>base.py\<close>, which is not part of this file.
  The event bus is \<^verbatim>\<open>publish(signal_name, *payload)\<close>, fire-and-forget; the
  diagnostics sink receives one record for each call.
\<close>

definition async_send_signal ::
  "string \<Rightarrow> pyval list \<Rightarrow> 'a zigbee_channel_scheme \<Rightarrow> 'a zigbee_channel_scheme" where
  "async_send_signal name payload ch = ch\<lparr>bus := bus ch @ [(name, payload)]\<rparr>"

definition debug ::
  "string \<Rightarrow> pyval list \<Rightarrow> 'a zigbee_channel_scheme \<Rightarrow> 'a zigbee_channel_scheme" where
  "debug msg margs ch = ch\<lparr>debug_log := debug_log ch @ [(msg, margs)]\<rparr>"

text \<open>
  Modelled from the spec: \<^verbatim>\<open>parse_and_log_command\<close> of \<^verbatim>\<open>base.py\<close>, which is
  not part of this file. It resolves the command id to a name with the cluster's command
  table, falls back to the numeric id, stringified, when the id is unknown, and logs the
  transaction. It does not change anything else.
\<close>

definition parse_and_log_command ::
  "'a zigbee_channel_scheme \<Rightarrow> int \<Rightarrow> int \<Rightarrow> int list \<Rightarrow> string \<times> 'a zigbee_channel_scheme" where
  "parse_and_log_command ch tsn command_id args =
     (let cmd = (case server_commands (cluster ch) command_id of
                   Some name \<Rightarrow> name
                 | None \<Rightarrow> str_int command_id)
      in (cmd, debug ''received command'' [PInt tsn, PStr cmd, PList (map PInt args)] ch))"

text \<open>
  Modelled from the spec: \<^verbatim>\<open>ZigbeeChannel.get_attribute_value\<close> of
  \<^verbatim>\<open>base.py\<close>, which is not part of this file. With the cache allowed it returns
  the last stored value without I/O if there is one; on a miss, or when the cache is not
  allowed, it issues a live read and stores the result before returning it. A failed live
  read is logged and the attribute is reported as unknown (\<open>PNone\<close>) for this call.
\<close>

definition get_attribute_value ::
  "int \<Rightarrow> bool \<Rightarrow> 'a zigbee_channel_scheme \<Rightarrow> pyval \<times> 'a zigbee_channel_scheme" where
  "get_attribute_value attribute from_cache ch =
     (let ch1 = ch\<lparr>requested := requested ch @ [(attribute, from_cache)]\<rparr>
      in case (if from_cache then attr_cache ch attribute else None) of
           Some v \<Rightarrow> (v, ch1)
         | None \<Rightarrow>
             (case read_attribute (cluster ch) attribute of
                Inl e \<Rightarrow> (PNone, debug ''failed to read attribute'' [PInt attribute, PExc e] ch1)
              | Inr v \<Rightarrow> (v, ch1\<lparr>attr_cache := (attr_cache ch)(attribute \<mapsto> v)\<rparr>)))"



subsection \<open>LevelControlChannel\<close>

definition dispatch_level_change ::
  "string \<Rightarrow> int \<Rightarrow> 'a zigbee_channel_scheme \<Rightarrow> 'a zigbee_channel_scheme" where
  "dispatch_level_change command level ch =
     async_send_signal (unique_id ch @ ''_'' @ command) [PInt level] ch"

definition LevelControl_cluster_command ::
  "zha_const \<Rightarrow> 'a zigbee_channel_scheme \<Rightarrow> int \<Rightarrow> int \<Rightarrow> int list
     \<Rightarrow> 'a zigbee_channel_scheme result" where
  "LevelControl_cluster_command k ch tsn command_id args =
     (case parse_and_log_command ch tsn command_id args of (cmd, ch1) \<Rightarrow>
        if cmd = ''move_to_level'' \<or> cmd = ''move_to_level_with_on_off'' then
          (case subscript args 0 of
             Inl e \<Rightarrow> Inl (e, ch1)
           | Inr level \<Rightarrow> Inr (dispatch_level_change (SIGNAL_SET_LEVEL k) level ch1))
        else if cmd = ''move'' \<or> cmd = ''move_with_on_off'' then
          (case subscript args 1 of
             Inl e \<Rightarrow> Inl (e, ch1)
           | Inr a1 \<Rightarrow>
               (case subscript args 0 of
                  Inl e \<Rightarrow> Inl (e, ch1)
                | Inr a0 \<Rightarrow>
                    (let rate = (if a0 = 0xFF then 10 else a1)
                     in Inr (dispatch_level_change (SIGNAL_MOVE_LEVEL k)
                               (if a0 \<noteq> 0 then - rate else rate) ch1))))
        else if cmd = ''step'' \<or> cmd = ''step_with_on_off'' then
          (case subscript args 0 of
             Inl e \<Rightarrow> Inl (e, ch1)
           | Inr a0 \<Rightarrow>
               (case subscript args 1 of
                  Inl e \<Rightarrow> Inl (e, ch1)
                | Inr a1 \<Rightarrow>
                    Inr (dispatch_level_change (SIGNAL_MOVE_LEVEL k)
                           (if a0 \<noteq> 0 then - a1 else a1) ch1)))
        else Inr ch1)"

subsection \<open>OnOffChannel\<close>

text \<open>
  Modelled from the spec: \<^verbatim>\<open>async_call_later\<close> of
  \<^verbatim>\<open>homeassistant.helpers.event\<close>, which is not part of this file: the scheduling
  primitive \<^verbatim>\<open>call_later(delay_seconds, callback) -> cancel_handle\<close>. \<open>pending\<close>
  holds the calls of this channel's \<^verbatim>\<open>set_to_off\<close> that are scheduled and neither
  cancelled nor fired, each as its handle and its delay in seconds. Calling the cancel
  handle removes the call.
\<close>

record hass =
  next_handle :: nat
  pending :: "(nat \<times> rat) list"

definition async_call_later :: "rat \<Rightarrow> hass \<Rightarrow> nat \<times> hass" where
  "async_call_later delay hs =
     (next_handle hs,
      hs\<lparr>next_handle := Suc (next_handle hs),
         pending := pending hs @ [(next_handle hs, delay)]\<rparr>)"

definition cancel :: "nat \<Rightarrow> hass \<Rightarrow> hass" where
  "cancel h hs = hs\<lparr>pending := filter (\<lambda>p. fst p \<noteq> h) (pending hs)\<rparr>"

text \<open>
  \<open>priv_state\<close> is \<^verbatim>\<open>self._state\<close>: \<open>None\<close> until it is known.
  \<open>priv_off_listener\<close> is \<^verbatim>\<open>self._off_listener\<close>: the cancel handle of the auto-off
  call. \<open>hass\<close> is \<^verbatim>\<open>self._ch_pool.hass\<close>.
\<close>

record onoff_channel = zigbee_channel +
  priv_state :: "bool option"
  priv_off_listener :: "nat option"
  hass :: hass

definition ON_OFF :: int where
  "ON_OFF = 0"

definition OnOff_attribute_updated ::
  "zha_const \<Rightarrow> int \<Rightarrow> pyval \<Rightarrow> 'a onoff_channel_scheme \<Rightarrow> 'a onoff_channel_scheme" where
  "OnOff_attribute_updated k attrid v ch =
     (if attrid = ON_OFF then
        (async_send_signal (unique_id ch @ ''_'' @ SIGNAL_ATTR_UPDATED k)
           [PInt attrid, PStr ''on_off'', v] ch)\<lparr>priv_state := Some (py_bool v)\<rparr>
      else ch)"

definition set_to_off :: "zha_const \<Rightarrow> 'a onoff_channel_scheme \<Rightarrow> 'a onoff_channel_scheme" where
  "set_to_off k ch =
     OnOff_attribute_updated k ON_OFF (PBool False) (ch\<lparr>priv_off_listener := None\<rparr>)"

text \<open>The truth value of \<^verbatim>\<open>self._state\<close>, which is None, True or False.\<close>

definition state_truthy :: "bool option \<Rightarrow> bool" where
  "state_truthy st = (case st of None \<Rightarrow> False | Some b \<Rightarrow> b)"

text \<open>
  The body of the \<^verbatim>\<open>on_with_timed_off\<close> branch once the command is accepted: cancel
  and clear the auto-off call held, turn on, and schedule a new call when
  \<^verbatim>\<open>on_time > 0\<close>. The delay \<^verbatim>\<open>on_time / 10\<close> is Python's true division of
  integers, the float nearest to the quotient; the model keeps the exact quotient.
\<close>

definition timed_on ::
  "zha_const \<Rightarrow> 'a onoff_channel_scheme \<Rightarrow> int \<Rightarrow> 'a onoff_channel_scheme" where
  "timed_on k ch1 on_time =
     (let ch2 = (case priv_off_listener ch1 of
                   None \<Rightarrow> ch1
                 | Some h \<Rightarrow> ch1\<lparr>hass := cancel h (hass ch1), priv_off_listener := None\<rparr>);
          ch3 = OnOff_attribute_updated k ON_OFF (PBool True) ch2
      in if on_time > 0 then
           (case async_call_later (of_int on_time / 10) (hass ch3) of
              (h, hs) \<Rightarrow> ch3\<lparr>hass := hs, priv_off_listener := Some h\<rparr>)
         else ch3)"

definition OnOff_cluster_command ::
  "zha_const \<Rightarrow> 'a onoff_channel_scheme \<Rightarrow> int \<Rightarrow> int \<Rightarrow> int list
     \<Rightarrow> 'a onoff_channel_scheme result" where
  "OnOff_cluster_command k ch tsn command_id args =
     (case parse_and_log_command ch tsn command_id args of (cmd, ch1) \<Rightarrow>
        if cmd = ''off'' \<or> cmd = ''off_with_effect'' then
          Inr (OnOff_attribute_updated k ON_OFF (PBool False) ch1)
        else if cmd = ''on'' \<or> cmd = ''on_with_recall_global_scene'' then
          Inr (OnOff_attribute_updated k ON_OFF (PBool True) ch1)
        else if cmd = ''on_with_timed_off'' then
          (case subscript args 0 of
             Inl e \<Rightarrow> Inl (e, ch1)
           | Inr should_accept \<Rightarrow>
               (case subscript args 1 of
                  Inl e \<Rightarrow> Inl (e, ch1)
                | Inr on_time \<Rightarrow>
                    if should_accept = 0
                       \<or> (should_accept = 1 \<and> state_truthy (priv_state ch1)) then
                      Inr (timed_on k ch1 on_time)
                    else Inr ch1))
        else if cmd = ''toggle'' then
          Inr (OnOff_attribute_updated k ON_OFF
                 (PBool (\<not> state_truthy (priv_state ch1))) ch1)
        else Inr ch1)"

definition OnOff_async_update ::
  "('a onoff_channel_scheme \<Rightarrow> 'a onoff_channel_scheme result)
     \<Rightarrow> 'a onoff_channel_scheme \<Rightarrow> 'a onoff_channel_scheme result" where
  "OnOff_async_update super_async_update ch =
     (if is_client (cluster ch) then Inr ch
      else
        (let from_cache = \<not> is_mains_powered (priv_ch_pool ch);
             ch1 = debug ''attempting to update onoff state - from cache: %s''
                     [PBool from_cache] ch
         in case get_attribute_value ON_OFF from_cache ch1 of (st, ch2) \<Rightarrow>
              super_async_update
                (if st \<noteq> PNone then ch2\<lparr>priv_state := Some (py_bool st)\<rparr> else ch2)))"

text \<open>
  Modelled from the spec: the scheduler firing the call with handle \<open>h\<close>. The auto-off
  call is a cancellable scheduled callback: only a call that is still pending fires, it is
  no longer pending once fired, and firing it calls \<^verbatim>\<open>set_to_off\<close>.
\<close>

definition fire :: "zha_const \<Rightarrow> nat \<Rightarrow> 'a onoff_channel_scheme \<Rightarrow> 'a onoff_channel_scheme" where
  "fire k h ch =
     (if h \<in> set (map fst (pending (hass ch))) then
        set_to_off k (ch\<lparr>hass := cancel h (hass ch)\<rparr>)
      else ch)"

text \<open>
  What reaches an On/Off channel after its construction and touches its state or its
  auto-off call: a command frame, an attribute report, or the scheduler firing a call.
  A handler that raises leaves the channel as the exception leaves it.
\<close>

datatype event = Command int int "int list" | Report int pyval | Timer_fires nat

fun step :: "zha_const \<Rightarrow> 'a onoff_channel_scheme \<Rightarrow> event \<Rightarrow> 'a onoff_channel_scheme" where
  "step k ch (Command tsn command_id args) =
     (case OnOff_cluster_command k ch tsn command_id args of
        Inl (e, ch') \<Rightarrow> ch'
      | Inr ch' \<Rightarrow> ch')"
| "step k ch (Report attrid v) = OnOff_attribute_updated k attrid v ch"
| "step k ch (Timer_fires h) = fire k h ch"

fun run :: "zha_const \<Rightarrow> 'a onoff_channel_scheme \<Rightarrow> event list \<Rightarrow> 'a onoff_channel_scheme" where
  "run k ch [] = ch"
| "run k ch (ev # evs) = run k (step k ch ev) evs"

text \<open>The handle the channel holds is the only pending call, if there is one.\<close>

definition timer_inv :: "'a onoff_channel_scheme \<Rightarrow> bool" where
  "timer_inv ch =
     (map fst (pending (hass ch)) =
        (case priv_off_listener ch of None \<Rightarrow> [] | Some h \<Rightarrow> [h]))"

subsection \<open>Ota\<close>

text \<open>\<^verbatim>\<open>s.split(c)\<close> for a separator of one character.\<close>

fun split_char :: "char \<Rightarrow> string \<Rightarrow> string list" where
  "split_char c [] = [[]]"
| "split_char c (x # xs) =
     (if x = c then [] # split_char c xs
      else (case split_char c xs of
              [] \<Rightarrow> [[x]]
            | y # ys \<Rightarrow> (x # y) # ys))"

definition Ota_cluster_command ::
  "zha_const \<Rightarrow> 'a zigbee_channel_scheme \<Rightarrow> int \<Rightarrow> int \<Rightarrow> int list option
     \<Rightarrow> 'a zigbee_channel_scheme result" where
  "Ota_cluster_command k ch tsn command_id args =
     (let cmd_name = (case server_commands (cluster ch) command_id of
                        Some name \<Rightarrow> PStr name
                      | None \<Rightarrow> PInt command_id)
      in case subscript (split_char CHR ''-'' (pool_unique_id (priv_ch_pool ch))) 0 of
           Inl e \<Rightarrow> Inl (e, ch)
         | Inr signal_id \<Rightarrow>
             if cmd_name = PStr ''query_next_image'' then
               (case subscript_opt args 3 of
                  Inl e \<Rightarrow> Inl (e, ch)
                | Inr version \<Rightarrow>
                    Inr (async_send_signal (SIGNAL_UPDATE_DEVICE_format k signal_id)
                           [PInt version] ch))
             else Inr ch)"

subsection \<open>PollControl\<close>



subsection \<open>PowerConfigurationChannel\<close>

definition PowerConfiguration_REPORT_CONFIG :: "report_entry list" where
  "PowerConfiguration_REPORT_CONFIG =
     [\<lparr>attr = Inl ''battery_voltage'', config = REPORT_CONFIG_BATTERY_SAVE\<rparr>,
      \<lparr>attr = Inl ''battery_percentage_remaining'', config = REPORT_CONFIG_BATTERY_SAVE\<rparr>]"

definition PowerConfiguration_attribute_updated ::
  "zha_const \<Rightarrow> int \<Rightarrow> pyval \<Rightarrow> 'a zigbee_channel_scheme
     \<Rightarrow> 'a zigbee_channel_scheme result" where
  "PowerConfiguration_attribute_updated k attrid v ch =
     (case subscript (priv_report_config ch) 1 of
        Inl e \<Rightarrow> Inl (e, ch)
      | Inr entry \<Rightarrow>
          (let attr_id = (case attr entry of
                            Inl name \<Rightarrow> attridx (cluster ch) name
                          | Inr i \<Rightarrow> Some i);
               attr_name = (case attributes (cluster ch) attrid of
                              Some name \<Rightarrow> PStr name
                            | None \<Rightarrow> PInt attrid)
           in if Some attrid = attr_id then
                Inr (async_send_signal (unique_id ch @ ''_'' @ SIGNAL_ATTR_UPDATED k)
                       [PInt attrid, attr_name, v] ch)
              else
                Inr (async_send_signal (unique_id ch @ ''_'' @ SIGNAL_STATE_ATTR k)
                       [attr_name, v] ch)))"

subsection \<open>Example inputs\<close>

text \<open>
  A device to run the handlers on: sample values for the names of \<^verbatim>\<open>..const\<close>, a
  cluster with a given command table and the two battery attributes of the Power
  Configuration cluster, and channels on it as their constructors leave them.
\<close>

definition example_const :: zha_const where
  "example_const =
     \<lparr>SIGNAL_ATTR_UPDATED = ''attribute_updated'',
      SIGNAL_MOVE_LEVEL = ''move_level'',
      SIGNAL_SET_LEVEL = ''set_level'',
      SIGNAL_STATE_ATTR = ''update_state_attribute'',
      SIGNAL_UPDATE_DEVICE_format = (\<lambda>signal_id. signal_id @ ''_zha_update_device'')\<rparr>"

definition example_cluster :: "bool \<Rightarrow> (int \<times> string) list \<Rightarrow> error + pyval \<Rightarrow> cluster" where
  "example_cluster client commands answer =
     \<lparr>is_client = client,
      server_commands = map_of commands,
      attributes = map_of [(0x20, ''battery_voltage''), (0x21, ''battery_percentage_remaining'')],
      attridx = map_of [(''battery_voltage'', 0x20), (''battery_percentage_remaining'', 0x21)],
      write_attributes = (\<lambda>request. answer),
      read_attribute = (\<lambda>attribute. answer),
      bind = Inr PNone,
      configure_reporting = (\<lambda>entries. Inr PNone)\<rparr>"

definition example_channel ::
  "(int \<times> string) list \<Rightarrow> error + pyval \<Rightarrow> report_entry list \<Rightarrow> zigbee_channel" where
  "example_channel commands answer entries =
     \<lparr>cluster = example_cluster False commands answer,
      priv_ch_pool = \<lparr>pool_unique_id = ''00:0d:6f:00:0a:90:69:e7-1'', is_mains_powered = True\<rparr>,
      unique_id = ''00:0d:6f:00:0a:90:69:e7-1-6'',
      priv_report_config = entries,
      status = UNBOUND,
      attr_cache = Map.empty,
      bus = [],
      debug_log = [],
      written = [],
      requested = []\<rparr>"


definition OnOff_commands :: "(int \<times> string) list" where
  "OnOff_commands =
     [(0x00, ''off''), (0x01, ''on''), (0x02, ''toggle''), (0x40, ''off_with_effect''),
      (0x41, ''on_with_recall_global_scene''), (0x42, ''on_with_timed_off'')]"

definition example_onoff :: "bool \<Rightarrow> bool \<Rightarrow> bool option \<Rightarrow> onoff_channel" where
  "example_onoff client mains st =
     \<lparr>cluster = example_cluster client OnOff_commands (Inr (PBool True)),
      priv_ch_pool = \<lparr>pool_unique_id = ''00:0d:6f:00:0a:90:69:e7-1'', is_mains_powered = mains\<rparr>,
      unique_id = ''00:0d:6f:00:0a:90:69:e7-1-6'',
      priv_report_config = [\<lparr>attr = Inl ''on_off'', config = REPORT_CONFIG_IMMEDIATE\<rparr>],
      status = UNBOUND,
      attr_cache = Map.empty,
      bus = [],
      debug_log = [],
      written = [],
      requested = [],
      priv_state = st,
      priv_off_listener = None,
      hass = \<lparr>next_handle = 0, pending = []\<rparr>\<rparr>"

section \<open>Properties\<close>

lemmas channel_defs = parse_and_log_command_def subscript_def async_send_signal_def
  debug_def Let_def raised_def channel_of_def

lemmas example_defs = example_const_def example_cluster_def example_channel_def
  example_onoff_def OnOff_commands_def

subsection \<open>Level Control\<close>

text \<open>
  C1. The \<^verbatim>\<open>move\<close> command takes the mode as argument 0 and the rate as argument 1.
  The source tests argument 0, the mode, against \<open>0xFF\<close> where the default-rate code
  belongs to argument 1, the rate. So \<^verbatim>\<open>move(mode=1, rate=0xFF)\<close> does not raise and
  sends exactly one move-level signal, whose value is \<open>-255\<close>, not the default rate
  \<open>-10\<close>.
\<close>

theorem LevelControl_move_rate_code_not_defaulted:
  "server_commands (cluster ch) command_id = Some ''move'' \<Longrightarrow>
   raised (LevelControl_cluster_command k ch tsn command_id [1, 0xFF]) = None \<and>
   bus (channel_of (LevelControl_cluster_command k ch tsn command_id [1, 0xFF])) =
     bus ch @ [(unique_id ch @ ''_'' @ SIGNAL_MOVE_LEVEL k, [PInt (- 255)])]"
  by (simp add: LevelControl_cluster_command_def dispatch_level_change_def channel_defs)

theorem LevelControl_move_rate_code_not_defaulted_witness:
  "server_commands (cluster (example_channel [(1, ''move'')] (Inr PNone) [])) 1 = Some ''move'' \<and>
   raised (LevelControl_cluster_command example_const
             (example_channel [(1, ''move'')] (Inr PNone) []) 7 1 [1, 0xFF]) = None \<and>
   bus (channel_of (LevelControl_cluster_command example_const
                      (example_channel [(1, ''move'')] (Inr PNone) []) 7 1 [1, 0xFF])) =
     [(''00:0d:6f:00:0a:90:69:e7-1-6_move_level'', [PInt (- 255)])]"
  using LevelControl_move_rate_code_not_defaulted
          [of "example_channel [(1, ''move'')] (Inr PNone) []" 1 example_const 7]
  by (simp add: example_defs)

subsection \<open>OTA\<close>

lemma split_char_hd: "split_char c s = takeWhile (\<lambda>x. x \<noteq> c) s # tl (split_char c s)"
  by (induction s) (auto split: list.splits)

lemma subscript_split_char:
  "subscript (split_char c s) 0 = Inr (takeWhile (\<lambda>x. x \<noteq> c) s)"
  by (subst split_char_hd) (simp add: subscript_def)

lemma Ota_cluster_command_prefix:
  "Ota_cluster_command k ch tsn command_id args =
     (if server_commands (cluster ch) command_id = Some ''query_next_image'' then
        (case subscript_opt args 3 of
           Inl e \<Rightarrow> Inl (e, ch)
         | Inr version \<Rightarrow>
             Inr (async_send_signal
                    (SIGNAL_UPDATE_DEVICE_format k
                       (takeWhile (\<lambda>c. c \<noteq> CHR ''-'') (pool_unique_id (priv_ch_pool ch))))
                    [PInt version] ch))
      else Inr ch)"
  by (simp add: Ota_cluster_command_def subscript_split_char split: option.splits)

text \<open>
  C2, as the claim states it, fails: a \<^verbatim>\<open>query_next_image\<close> command with three
  arguments is not ignored, the handler raises IndexError.
\<close>

theorem Ota_short_args_counterexample:
  "raised (Ota_cluster_command example_const
             (example_channel [(1, ''query_next_image'')] (Inr PNone) []) 7 1
             (Some [0, 4660, 1]))
   = Some IndexError"
  by (simp add: Ota_cluster_command_prefix subscript_opt_def channel_defs example_defs)

text \<open>
  C2, amended. For every command that resolves to \<^verbatim>\<open>query_next_image\<close> with an
  argument list shorter than 4 elements, or None, the handler raises: IndexError for a
  short list, TypeError for None. It sends no signal: the channel is as it was.
\<close>

theorem Ota_short_args_raise:
  "server_commands (cluster ch) command_id = Some ''query_next_image'' \<Longrightarrow>
   (case args of None \<Rightarrow> True | Some xs \<Rightarrow> length xs < 4) \<Longrightarrow>
   Ota_cluster_command k ch tsn command_id args =
     Inl (case args of None \<Rightarrow> TypeError | Some xs \<Rightarrow> IndexError, ch)"
  by (cases args) (simp_all add: Ota_cluster_command_prefix subscript_opt_def subscript_def)

theorem Ota_short_args_raise_witness:
  "server_commands (cluster (example_channel [(1, ''query_next_image'')] (Inr PNone) [])) 1
     = Some ''query_next_image'' \<and>
   Ota_cluster_command example_const
     (example_channel [(1, ''query_next_image'')] (Inr PNone) []) 7 1 (Some [0, 4660, 1]) =
     Inl (IndexError, example_channel [(1, ''query_next_image'')] (Inr PNone) []) \<and>
   Ota_cluster_command example_const
     (example_channel [(1, ''query_next_image'')] (Inr PNone) []) 7 1 None =
     Inl (TypeError, example_channel [(1, ''query_next_image'')] (Inr PNone) [])"
  using Ota_short_args_raise
          [of "example_channel [(1, ''query_next_image'')] (Inr PNone) []" 1
              "Some [0, 4660, 1]" example_const 7]
        Ota_short_args_raise
          [of "example_channel [(1, ''query_next_image'')] (Inr PNone) []" 1 None
              example_const 7]
  by (simp add: example_defs)

text \<open>
  C7. A command that resolves to \<^verbatim>\<open>query_next_image\<close> with at least 4 arguments
  sends one signal: its name is the update-device template instantiated at the part of
  the pool's unique id before the first \<open>-\<close>, its payload is argument 3, the 4th. A
  command that resolves to any other name sends nothing and changes nothing.
\<close>

theorem Ota_query_next_image_signal:
  "(server_commands (cluster ch) command_id = Some ''query_next_image'' \<and> 4 \<le> length xs \<longrightarrow>
      Ota_cluster_command k ch tsn command_id (Some xs) =
        Inr (ch\<lparr>bus := bus ch @
               [(SIGNAL_UPDATE_DEVICE_format k
                   (takeWhile (\<lambda>c. c \<noteq> CHR ''-'') (pool_unique_id (priv_ch_pool ch))),
                 [PInt (xs ! 3)])]\<rparr>)) \<and>
   (server_commands (cluster ch) command_id \<noteq> Some ''query_next_image'' \<longrightarrow>
      Ota_cluster_command k ch tsn command_id args = Inr ch)"
  by (simp add: Ota_cluster_command_prefix subscript_opt_def subscript_def
      async_send_signal_def)

theorem Ota_query_next_image_signal_witness:
  "bus (channel_of (Ota_cluster_command example_const
          (example_channel [(1, ''query_next_image'')] (Inr PNone) []) 7 1
          (Some [0, 4660, 1, 16909060])))
    = [(''00:0d:6f:00:0a:90:69:e7_zha_update_device'', [PInt 16909060])] \<and>
   Ota_cluster_command example_const
     (example_channel [(1, ''query_next_image'')] (Inr PNone) []) 7 3 (Some []) =
     Inr (example_channel [(1, ''query_next_image'')] (Inr PNone) [])"
  using Ota_query_next_image_signal
          [of "example_channel [(1, ''query_next_image'')] (Inr PNone) []" 1
              "[0, 4660, 1, 16909060]" example_const 7]
        Ota_query_next_image_signal
          [of "example_channel [(1, ''query_next_image'')] (Inr PNone) []" 3
              "[]" example_const 7 "Some []"]
  by (simp add: example_defs channel_of_def)

subsection \<open>On/Off\<close>

text \<open>
  C9. A \<^verbatim>\<open>toggle\<close> command received while the tracked state is unknown (None) does
  not raise, sets the state to on and sends the attribute-updated signal with the value
  True: the unknown state counts as off.
\<close>

theorem OnOff_toggle_unknown_turns_on:
  "server_commands (cluster ch) command_id = Some ''toggle'' \<Longrightarrow> priv_state ch = None \<Longrightarrow>
   raised (OnOff_cluster_command k ch tsn command_id args) = None \<and>
   priv_state (channel_of (OnOff_cluster_command k ch tsn command_id args)) = Some True \<and>
   bus (channel_of (OnOff_cluster_command k ch tsn command_id args)) =
     bus ch @ [(unique_id ch @ ''_'' @ SIGNAL_ATTR_UPDATED k,
                [PInt ON_OFF, PStr ''on_off'', PBool True])]"
  by (simp add: OnOff_cluster_command_def OnOff_attribute_updated_def state_truthy_def
      channel_defs)

theorem OnOff_toggle_unknown_turns_on_witness:
  "server_commands (cluster (example_onoff False True None)) 2 = Some ''toggle'' \<and>
   priv_state (example_onoff False True None) = None \<and>
   raised (OnOff_cluster_command example_const (example_onoff False True None) 7 2 []) = None \<and>
   priv_state (channel_of (OnOff_cluster_command example_const
                             (example_onoff False True None) 7 2 [])) = Some True \<and>
   bus (channel_of (OnOff_cluster_command example_const
                      (example_onoff False True None) 7 2 [])) =
     [(''00:0d:6f:00:0a:90:69:e7-1-6_attribute_updated'',
       [PInt 0, PStr ''on_off'', PBool True])]"
  using OnOff_toggle_unknown_turns_on [of "example_onoff False True None" 2 example_const 7 "[]"]
  by (simp add: example_defs ON_OFF_def)

lemma OnOff_attribute_updated_fields [simp]:
  "priv_off_listener (OnOff_attribute_updated k a v ch) = priv_off_listener ch"
  "hass (OnOff_attribute_updated k a v ch) = hass ch"
  "cluster (OnOff_attribute_updated k a v ch) = cluster ch"
  "unique_id (OnOff_attribute_updated k a v ch) = unique_id ch"
  by (simp_all add: OnOff_attribute_updated_def async_send_signal_def)

lemma OnOff_attribute_updated_on_off [simp]:
  "priv_state (OnOff_attribute_updated k ON_OFF v ch) = Some (py_bool v)"
  "bus (OnOff_attribute_updated k ON_OFF v ch) =
     bus ch @ [(unique_id ch @ ''_'' @ SIGNAL_ATTR_UPDATED k, [PInt ON_OFF, PStr ''on_off'', v])]"
  by (simp_all add: OnOff_attribute_updated_def async_send_signal_def)

lemma parse_and_log_command_fields [simp]:
  "priv_off_listener (snd (parse_and_log_command ch tsn c args)) = priv_off_listener ch"
  "hass (snd (parse_and_log_command ch tsn c args)) = hass ch"
  "priv_state (snd (parse_and_log_command ch tsn c args)) = priv_state ch"
  "bus (snd (parse_and_log_command ch tsn c args)) = bus ch"
  "cluster (snd (parse_and_log_command ch tsn c args)) = cluster ch"
  "unique_id (snd (parse_and_log_command ch tsn c args)) = unique_id ch"
  by (simp_all add: parse_and_log_command_def debug_def Let_def)

lemma parse_and_log_command_name:
  "server_commands (cluster ch) c = Some name \<Longrightarrow>
   fst (parse_and_log_command ch tsn c args) = name"
  by (simp add: parse_and_log_command_def Let_def)

lemma OnOff_on_with_timed_off_unfold:
  assumes "server_commands (cluster ch) command_id = Some ''on_with_timed_off''"
  shows "OnOff_cluster_command k ch tsn command_id (accept # on_time # rest) =
     (if accept = 0 \<or> (accept = 1 \<and> priv_state ch = Some True) then
        Inr (timed_on k (snd (parse_and_log_command ch tsn command_id (accept # on_time # rest)))
               on_time)
      else Inr (snd (parse_and_log_command ch tsn command_id (accept # on_time # rest))))"
proof -
  obtain ch1 where p: "parse_and_log_command ch tsn command_id (accept # on_time # rest)
      = (''on_with_timed_off'', ch1)"
    using parse_and_log_command_name [OF assms, of tsn "accept # on_time # rest"]
    by (cases "parse_and_log_command ch tsn command_id (accept # on_time # rest)") simp
  have st: "priv_state ch1 = priv_state ch"
    using parse_and_log_command_fields(3) [of ch tsn command_id "accept # on_time # rest"] p
    by simp
  have tr: "state_truthy (priv_state ch) = (priv_state ch = Some True)"
    by (simp add: state_truthy_def split: option.splits)
  show ?thesis
    by (simp add: OnOff_cluster_command_def p st tr subscript_def)
qed

lemma timed_on_fields:
  "priv_state (timed_on k ch t) = Some True"
  "bus (timed_on k ch t) =
     bus ch @ [(unique_id ch @ ''_'' @ SIGNAL_ATTR_UPDATED k,
                [PInt ON_OFF, PStr ''on_off'', PBool True])]"
  "priv_off_listener (timed_on k ch t) = (if 0 < t then Some (next_handle (hass ch)) else None)"
  "pending (hass (timed_on k ch t)) =
     filter (\<lambda>p. Some (fst p) \<noteq> priv_off_listener ch) (pending (hass ch))
       @ (if 0 < t then [(next_handle (hass ch), of_int t / 10)] else [])"
  "next_handle (hass (timed_on k ch t)) =
     (if 0 < t then Suc (next_handle (hass ch)) else next_handle (hass ch))"
  "cluster (timed_on k ch t) = cluster ch"
  by (simp_all add: timed_on_def Let_def async_call_later_def cancel_def
      split: option.splits prod.splits)

lemmas OnOff_eval_defs = OnOff_cluster_command_def parse_and_log_command_def debug_def Let_def
  subscript_def timed_on_def OnOff_attribute_updated_def async_send_signal_def
  async_call_later_def cancel_def set_to_off_def fire_def ON_OFF_def state_truthy_def

text \<open>
  C3. For \<^verbatim>\<open>on_with_timed_off\<close> with the accept flag as argument 0 and
  \<^verbatim>\<open>on_time\<close> as argument 1, the handler does not raise. With the flag 1 and the
  tracked state off or unknown, the state, the signals sent, the handle held and the
  scheduler are as before: nothing is turned on, sent or scheduled. With the flag 0, or
  the flag 1 and the state on, the state becomes on and the attribute-updated signal is
  sent; when \<^verbatim>\<open>on_time > 0\<close> a call is scheduled after \<open>on_time / 10\<close> seconds, on
  top of the pending calls without the one cancelled, and its handle is held.
\<close>

theorem OnOff_on_with_timed_off_accept:
  "server_commands (cluster ch) command_id = Some ''on_with_timed_off'' \<Longrightarrow>
   r = OnOff_cluster_command k ch tsn command_id (accept # on_time # rest) \<Longrightarrow>
   raised r = None \<and>
   (accept = 1 \<and> priv_state ch \<noteq> Some True \<longrightarrow>
      priv_state (channel_of r) = priv_state ch \<and>
      bus (channel_of r) = bus ch \<and>
      priv_off_listener (channel_of r) = priv_off_listener ch \<and>
      hass (channel_of r) = hass ch) \<and>
   (accept = 0 \<or> (accept = 1 \<and> priv_state ch = Some True) \<longrightarrow>
      priv_state (channel_of r) = Some True \<and>
      bus (channel_of r) =
        bus ch @ [(unique_id ch @ ''_'' @ SIGNAL_ATTR_UPDATED k,
                   [PInt ON_OFF, PStr ''on_off'', PBool True])] \<and>
      (0 < on_time \<longrightarrow>
         priv_off_listener (channel_of r) = Some (next_handle (hass ch)) \<and>
         pending (hass (channel_of r)) =
           filter (\<lambda>p. Some (fst p) \<noteq> priv_off_listener ch) (pending (hass ch))
             @ [(next_handle (hass ch), of_int on_time / 10)]))"
  by (simp add: OnOff_on_with_timed_off_unfold raised_def channel_of_def timed_on_fields)

theorem OnOff_on_with_timed_off_accept_witness:
  "server_commands (cluster (example_onoff False True (Some True))) 0x42
     = Some ''on_with_timed_off'' \<and>
   priv_state (channel_of (OnOff_cluster_command example_const
       (example_onoff False True (Some False)) 7 0x42 [1, 0])) = Some False \<and>
   bus (channel_of (OnOff_cluster_command example_const
       (example_onoff False True (Some False)) 7 0x42 [1, 0])) = [] \<and>
   pending (hass (channel_of (OnOff_cluster_command example_const
       (example_onoff False True (Some False)) 7 0x42 [1, 0]))) = [] \<and>
   priv_state (channel_of (OnOff_cluster_command example_const
       (example_onoff False True (Some True)) 7 0x42 [1, 50])) = Some True \<and>
   pending (hass (channel_of (OnOff_cluster_command example_const
       (example_onoff False True (Some True)) 7 0x42 [1, 50]))) = [(0, 5)]"
  using OnOff_on_with_timed_off_accept
          [where ch = "example_onoff False True (Some False)" and command_id = "0x42"
             and k = example_const and tsn = 7 and accept = 1 and on_time = 0
             and rest = "[]", OF _ refl]
        OnOff_on_with_timed_off_accept
          [where ch = "example_onoff False True (Some True)" and command_id = "0x42"
             and k = example_const and tsn = 7 and accept = 1 and on_time = 50
             and rest = "[]", OF _ refl]
  by (simp add: example_defs)

text \<open>
  C10. An accepted \<^verbatim>\<open>on_with_timed_off\<close> with \<^verbatim>\<open>on_time = 0\<close> does not raise,
  turns the state on, holds no handle afterwards and schedules nothing: the pending calls
  are those of before without the one whose handle was held. When the handle held was
  the only pending call, as it is in every state the channel reaches, no auto-off is
  pending afterwards.
\<close>

theorem OnOff_on_with_timed_off_zero:
  "server_commands (cluster ch) command_id = Some ''on_with_timed_off'' \<Longrightarrow>
   accept = 0 \<or> (accept = 1 \<and> priv_state ch = Some True) \<Longrightarrow>
   r = OnOff_cluster_command k ch tsn command_id (accept # 0 # rest) \<Longrightarrow>
   raised r = None \<and>
   priv_state (channel_of r) = Some True \<and>
   priv_off_listener (channel_of r) = None \<and>
   pending (hass (channel_of r)) =
     filter (\<lambda>p. Some (fst p) \<noteq> priv_off_listener ch) (pending (hass ch)) \<and>
   next_handle (hass (channel_of r)) = next_handle (hass ch) \<and>
   (if timer_inv ch then pending (hass (channel_of r)) = [] else True)"
  by (auto simp add: OnOff_on_with_timed_off_unfold raised_def channel_of_def timed_on_fields
      timer_inv_def split: option.splits)

theorem OnOff_on_with_timed_off_zero_witness:
  "server_commands (cluster (example_onoff False True None)) 0x42
     = Some ''on_with_timed_off'' \<and>
   pending (hass (run example_const (example_onoff False True None)
                    [Command 7 0x42 [0, 50]])) = [(0, 5)] \<and>
   priv_off_listener (run example_const (example_onoff False True None)
                        [Command 7 0x42 [0, 50]]) = Some 0 \<and>
   timer_inv (run example_const (example_onoff False True None) [Command 7 0x42 [0, 50]]) \<and>
   pending (hass (channel_of (OnOff_cluster_command example_const
       (run example_const (example_onoff False True None) [Command 7 0x42 [0, 50]])
       8 0x42 [1, 0]))) = [] \<and>
   priv_off_listener (channel_of (OnOff_cluster_command example_const
       (run example_const (example_onoff False True None) [Command 7 0x42 [0, 50]])
       8 0x42 [1, 0])) = None \<and>
   priv_state (channel_of (OnOff_cluster_command example_const
       (run example_const (example_onoff False True None) [Command 7 0x42 [0, 50]])
       8 0x42 [1, 0])) = Some True"
  using OnOff_on_with_timed_off_zero
          [where ch = "run example_const (example_onoff False True None)
                         [Command 7 0x42 [0, 50]]"
             and command_id = "0x42" and k = example_const and tsn = 8 and accept = 1
             and rest = "[]", OF _ _ refl]
  by (simp add: example_defs timer_inv_def channel_of_def OnOff_eval_defs)













lemma get_attribute_value_requested:
  "requested (snd (get_attribute_value a f ch)) = requested ch @ [(a, f)]"
  by (simp add: get_attribute_value_def Let_def debug_def split: option.splits sum.splits)

lemma get_attribute_value_priv_state:
  "priv_state (snd (get_attribute_value a f ch)) = priv_state ch"
  by (simp add: get_attribute_value_def Let_def debug_def split: option.splits sum.splits)

lemma get_attribute_value_debug:
  "fst (get_attribute_value a f (debug msg margs ch)) = fst (get_attribute_value a f ch)"
  by (simp add: get_attribute_value_def Let_def debug_def split: option.splits sum.splits)

text \<open>
  C8, as the claim states it, fails: on a client cluster \<^verbatim>\<open>async_update\<close> returns at
  once, so for a mains-powered device it does not read the attribute at all.
\<close>

theorem OnOff_async_update_client_counterexample:
  "is_mains_powered (priv_ch_pool (example_onoff True True None)) \<and>
   requested (channel_of (OnOff_async_update Inr (example_onoff True True None))) = []"
  by (simp add: OnOff_async_update_def example_defs channel_of_def)

text \<open>
  C8, amended. Unless the cluster is a client cluster, \<^verbatim>\<open>async_update\<close> asks for the
  \<^verbatim>\<open>on_off\<close> attribute once, with \<^verbatim>\<open>from_cache\<close> false exactly when the owning
  device is mains-powered and true otherwise, sets the tracked state to the truth value of
  what the read returns when that is not None, leaves it as it was when it is None, and
  then runs the base-class update. On a client cluster it returns at once, reads nothing
  and changes nothing.
\<close>

theorem OnOff_async_update_cache_policy:
  "(\<not> is_client (cluster ch) \<longrightarrow>
      (\<exists>ch'. OnOff_async_update super_async_update ch = super_async_update ch' \<and>
         requested ch' = requested ch @ [(ON_OFF, \<not> is_mains_powered (priv_ch_pool ch))] \<and>
         priv_state ch' =
           (let st = fst (get_attribute_value ON_OFF
                            (\<not> is_mains_powered (priv_ch_pool ch)) ch)
            in if st = PNone then priv_state ch else Some (py_bool st)))) \<and>
   (is_client (cluster ch) \<longrightarrow> OnOff_async_update super_async_update ch = Inr ch)"
proof -
  let ?f = "\<not> is_mains_powered (priv_ch_pool ch)"
  let ?ch1 = "debug ''attempting to update onoff state - from cache: %s'' [PBool ?f] ch"
  obtain st ch2 where g: "get_attribute_value ON_OFF ?f ?ch1 = (st, ch2)"
    by (cases "get_attribute_value ON_OFF ?f ?ch1")
  have st: "st = fst (get_attribute_value ON_OFF ?f ch)"
    using get_attribute_value_debug [of ON_OFF ?f _ _ ch] g by (metis fst_conv)
  have rq: "requested ch2 = requested ch @ [(ON_OFF, ?f)]"
    using get_attribute_value_requested [of ON_OFF ?f ?ch1] g by (simp add: debug_def)
  have ps: "priv_state ch2 = priv_state ch"
    using get_attribute_value_priv_state [of ON_OFF ?f ?ch1] g by (simp add: debug_def)
  let ?ch3 = "if st \<noteq> PNone then ch2\<lparr>priv_state := Some (py_bool st)\<rparr> else ch2"
  have upd: "\<not> is_client (cluster ch) \<Longrightarrow>
      OnOff_async_update super_async_update ch = super_async_update ?ch3"
    by (simp add: OnOff_async_update_def Let_def g)
  have rq3: "requested ?ch3 = requested ch @ [(ON_OFF, ?f)]"
    using rq by simp
  have ps3: "priv_state ?ch3 =
      (let st = fst (get_attribute_value ON_OFF ?f ch)
       in if st = PNone then priv_state ch else Some (py_bool st))"
    unfolding st [symmetric] using ps by (simp add: Let_def)
  show ?thesis
  proof (intro conjI impI)
    assume "\<not> is_client (cluster ch)"
    then show "\<exists>ch'. OnOff_async_update super_async_update ch = super_async_update ch' \<and>
         requested ch' = requested ch @ [(ON_OFF, ?f)] \<and>
         priv_state ch' =
           (let st = fst (get_attribute_value ON_OFF ?f ch)
            in if st = PNone then priv_state ch else Some (py_bool st))"
      using upd rq3 ps3 by blast
  next
    assume "is_client (cluster ch)"
    then show "OnOff_async_update super_async_update ch = Inr ch"
      by (simp add: OnOff_async_update_def)
  qed
qed

theorem OnOff_async_update_cache_policy_witness:
  "requested (channel_of (OnOff_async_update Inr (example_onoff False True None))) =
     [(0, False)] \<and>
   priv_state (channel_of (OnOff_async_update Inr (example_onoff False True None))) =
     Some True \<and>
   requested (channel_of (OnOff_async_update Inr (example_onoff False False None))) =
     [(0, True)] \<and>
   OnOff_async_update Inr (example_onoff True True None) = Inr (example_onoff True True None)"
  using OnOff_async_update_cache_policy
          [where ch = "example_onoff False True None" and super_async_update = Inr]
        OnOff_async_update_cache_policy
          [where ch = "example_onoff False False None" and super_async_update = Inr]
        OnOff_async_update_cache_policy
          [where ch = "example_onoff True True None" and super_async_update = Inr]
  by (simp add: example_defs channel_of_def OnOff_async_update_def get_attribute_value_def
      debug_def Let_def ON_OFF_def)

subsection \<open>Power Configuration\<close>

text \<open>
  C4. With the report configuration the class declares, every attribute report sends
  exactly one signal and does not raise: the attribute-updated signal, carrying the id,
  the resolved name and the value, when the reported id is the id of
  \<^verbatim>\<open>battery_percentage_remaining\<close>, the attribute of entry 1; the state-attribute
  signal, carrying the resolved name and the value, for every other id.
\<close>

theorem PowerConfiguration_one_signal_per_report:
  "priv_report_config ch = PowerConfiguration_REPORT_CONFIG \<Longrightarrow>
   PowerConfiguration_attribute_updated k attrid v ch =
     Inr (ch\<lparr>bus := bus ch @
            [if Some attrid = attridx (cluster ch) ''battery_percentage_remaining''
             then (unique_id ch @ ''_'' @ SIGNAL_ATTR_UPDATED k,
                   [PInt attrid,
                    case attributes (cluster ch) attrid of
                      Some name \<Rightarrow> PStr name | None \<Rightarrow> PInt attrid,
                    v])
             else (unique_id ch @ ''_'' @ SIGNAL_STATE_ATTR k,
                   [case attributes (cluster ch) attrid of
                      Some name \<Rightarrow> PStr name | None \<Rightarrow> PInt attrid,
                    v])]\<rparr>)"
  by (simp add: PowerConfiguration_attribute_updated_def PowerConfiguration_REPORT_CONFIG_def
      subscript_def async_send_signal_def Let_def)

theorem PowerConfiguration_one_signal_per_report_witness:
  "priv_report_config (example_channel [] (Inr PNone) PowerConfiguration_REPORT_CONFIG)
     = PowerConfiguration_REPORT_CONFIG \<and>
   bus (channel_of (PowerConfiguration_attribute_updated example_const 0x21 (PInt 200)
          (example_channel [] (Inr PNone) PowerConfiguration_REPORT_CONFIG))) =
     [(''00:0d:6f:00:0a:90:69:e7-1-6_attribute_updated'',
       [PInt 0x21, PStr ''battery_percentage_remaining'', PInt 200])] \<and>
   bus (channel_of (PowerConfiguration_attribute_updated example_const 0x20 (PInt 30)
          (example_channel [] (Inr PNone) PowerConfiguration_REPORT_CONFIG))) =
     [(''00:0d:6f:00:0a:90:69:e7-1-6_update_state_attribute'',
       [PStr ''battery_voltage'', PInt 30])]"
  using PowerConfiguration_one_signal_per_report
          [where ch = "example_channel [] (Inr PNone) PowerConfiguration_REPORT_CONFIG"
             and k = example_const and attrid = "0x21" and v = "PInt 200"]
        PowerConfiguration_one_signal_per_report
          [where ch = "example_channel [] (Inr PNone) PowerConfiguration_REPORT_CONFIG"
             and k = example_const and attrid = "0x20" and v = "PInt 30"]
  by (simp add: example_defs channel_of_def)

subsection \<open>Poll Control\<close>








end
